theory Spec2Isabelle
  imports Complex_Main
begin

section \<open>Weather forecast tool: location matching and forecast rendering\<close>

text \<open>
  The development embeds the final variant of the program (the one with the
  \<open>-sunrise\<close>, \<open>-sunset\<close> and \<open>-f\<close> flags): \<open>formatExtraForecastParams\<close>,
  \<open>createPattern\<close>, \<open>processJsonData\<close> and \<open>FindCityLocation\<close>.

  Modelling conventions.
  \<^item> A Go \<open>string\<close> is a byte list (\<open>string\<close>); the degree sign of the output
    line is its two UTF-8 bytes.
  \<^item> A \<open>float64\<close> read from the JSON payload is finite and is modelled by the real
    number it denotes; \<open>+\<close>, \<open>-\<close>, \<open>*\<close> and \<open>/\<close> by a non-zero divisor are
    the exact operations (rounding and overflow to infinity are not modelled).
    Division by zero does not panic in Go: it yields NaN or an infinity, which
    the type \<open>f64\<close> keeps apart from the finite values.
    At a rounding boundary the quotient of the indicator, computed here on
    the reals, can truncate to another integer than in \<open>float64\<close>; the
    theorems about all payloads conclude only what does not depend on it.
  \<^item> The conversion \<open>int(x)\<close> truncates toward zero. For NaN, the infinities and
    values outside the 64-bit range the Go specification leaves the result to
    the implementation, so those results are parameters (record \<open>platform\<close>).
  \<^item> A Go \<open>error\<close> is modelled by its message; an index out of range is a panic
    value, and everything printed before it stays printed.
  \<^item> Library calls whose code is not part of the program (HTTP, JSON decoding,
    \<open>time.Parse\<close>, \<open>%.Nf\<close> formatting, \<open>url.PathEscape\<close>) are fields of the
    record \<open>stdlib\<close>.
\<close>

subsection \<open>Data model\<close>

record City =
  Name :: string
  Country :: string

record GeoCodingResult =
  Name_res :: string
  Latitude :: string
  Longitude :: string
  Country_res :: string

record GeoCodingResponse =
  GeoCodingResults :: "GeoCodingResult list"

record ForecastParams =
  Precipitation :: bool
  Sunrise_flag :: bool
  Sunset_flag :: bool
  UVIndex_flag :: bool
  Fahr :: bool

record History =
  MaxTemps :: "real list"
  MinTemps :: "real list"
  UVIndex :: "real list"
  Sunrise :: "string list"
  Sunset :: "string list"
  Precip :: "real list"
  World :: "string list"

record Response =
  History :: History

type_synonym error = string

datatype panic = IndexOutOfRange nat nat

datatype f64 = Fin real | PInf | NInf | NaN

record platform =
  nan_int :: int
  pinf_int :: int
  ninf_int :: int

record stdlib =
  http_get :: "string \<Rightarrow> error + string"
  read_all :: "string \<Rightarrow> error + string"
  path_escape :: "string \<Rightarrow> string"
  unmarshal_geo :: "string \<Rightarrow> error + GeoCodingResponse"
  unmarshal_forecast :: "string \<Rightarrow> error + Response"
  clock :: "string \<Rightarrow> string option"
  fmt_f :: "nat \<Rightarrow> real \<Rightarrow> string"

text \<open>
  \<open>clock L s\<close> stands for \<open>time.Parse("2006-01-02T15:04", s)\<close> followed by
  \<open>t.Format("15:04")\<close>: \<open>None\<close> when parsing fails. \<open>fmt_f L n x\<close> stands for
  \<open>fmt.Sprintf("%.nf", x)\<close>. The two conversion tables below are the results
  of the amd64 and arm64 instructions the Go compiler emits.
\<close>

definition amd64 :: platform where
  "amd64 = \<lparr>nan_int = - (2 ^ 63), pinf_int = - (2 ^ 63), ninf_int = - (2 ^ 63)\<rparr>"

definition arm64 :: platform where
  "arm64 = \<lparr>nan_int = 0, pinf_int = 2 ^ 63 - 1, ninf_int = - (2 ^ 63)\<rparr>"

subsection \<open>Floating-point helpers\<close>

definition fdiv :: "real \<Rightarrow> real \<Rightarrow> f64" where
  "fdiv a b =
     (if b = 0 then (if a = 0 then NaN else if 0 < a then PInf else NInf)
      else Fin (a / b))"

fun fmul :: "f64 \<Rightarrow> real \<Rightarrow> f64" where
  "fmul (Fin x) k = Fin (x * k)"
| "fmul PInf k = (if 0 < k then PInf else if k < 0 then NInf else NaN)"
| "fmul NInf k = (if 0 < k then NInf else if k < 0 then PInf else NaN)"
| "fmul NaN k = NaN"

definition trunc :: "real \<Rightarrow> int" where
  "trunc x = (if 0 \<le> x then \<lfloor>x\<rfloor> else \<lceil>x\<rceil>)"

fun float_to_int :: "platform \<Rightarrow> f64 \<Rightarrow> int" where
  "float_to_int P (Fin x) =
     (if trunc x < - (2 ^ 63) then ninf_int P
      else if 2 ^ 63 \<le> trunc x then pinf_int P
      else trunc x)"
| "float_to_int P PInf = pinf_int P"
| "float_to_int P NInf = ninf_int P"
| "float_to_int P NaN = nan_int P"

subsection \<open>Formatting of integers\<close>

fun show_nat :: "nat \<Rightarrow> string" where
  "show_nat n =
     (if n < 10 then [''0123456789'' ! n]
      else show_nat (n div 10) @ [''0123456789'' ! (n mod 10)])"

declare show_nat.simps [simp del]

definition show_int :: "int \<Rightarrow> string" where
  "show_int i = (if i < 0 then CHR ''-'' # show_nat (nat (- i)) else show_nat (nat i))"

definition zero_pad :: "nat \<Rightarrow> string \<Rightarrow> string" where
  "zero_pad w s = replicate (w - length s) CHR ''0'' @ s"

text \<open>\<open>%02d\<close>: zero padding to width two, the sign taking one of the two columns.\<close>

definition fmt_02d :: "int \<Rightarrow> string" where
  "fmt_02d i =
     (if i < 0 then CHR ''-'' # zero_pad 1 (show_nat (nat (- i)))
      else zero_pad 2 (show_nat (nat i)))"

subsection \<open>Request parameters\<close>

definition formatExtraForecastParams :: "ForecastParams \<Rightarrow> string" where
  "formatExtraForecastParams f =
     ''&daily=temperature_2m_max,temperature_2m_min''
     @ (if Precipitation f then '',precipitation_sum'' else [])
     @ (if Sunrise_flag f then '',sunrise'' else [])
     @ (if Sunset_flag f then '',sunset'' else [])
     @ (if UVIndex_flag f then '',uv_index_max'' else [])
     @ (if Fahr f then ''&temperature_unit=fahrenheit'' else [])"

subsection \<open>The indicator\<close>

text \<open>
  \<open>createPattern\<close> returns the lines it prints (it prints a negative argument)
  together with its result.
\<close>

definition createPattern :: "int \<Rightarrow> bool \<Rightarrow> string list \<times> string" where
  "createPattern n isFahrenheit =
     (let (printed, n1) =
            (if n < 0 then ([show_int n], 0) else if 5 < n then ([], 5) else ([], n));
          stars = n1;
          asterisks = replicate (nat stars) CHR ''*'';
          spaces = replicate (nat (5 - stars)) CHR '' ''
      in (printed, asterisks @ spaces))"

subsection \<open>Rendering\<close>

definition index :: "'a list \<Rightarrow> nat \<Rightarrow> panic + 'a" where
  "index xs i = (if i < length xs then Inr (xs ! i) else Inl (IndexOutOfRange i (length xs)))"

text \<open>First loop of \<open>processJsonData\<close>: the scan for \<open>minTemp\<close> and \<open>maxTemp\<close>.\<close>

fun scan :: "bool \<Rightarrow> real list \<Rightarrow> real \<times> real \<Rightarrow> real \<times> real" where
  "scan fah [] (minTemp, maxTemp) = (minTemp, maxTemp)"
| "scan fah (t # ts) (minTemp, maxTemp) =
     (let temp = (if fah then (t * 9 / 5) + 32 else t);
          minTemp1 = (if minTemp = 0 \<or> temp < minTemp then temp else minTemp);
          maxTemp1 = (if temp > maxTemp then temp else maxTemp)
      in scan fah ts (minTemp1, maxTemp1))"

text \<open>
  The value of \<open>temp\<close> in an iteration of the second loop, where \<open>t\<close> is the
  entry \<open>MaxTemps[i]\<close>.
\<close>

definition day_temp :: "bool \<Rightarrow> real \<Rightarrow> real" where
  "day_temp fah t = (if fah then (t * 9 / 5) + 32 else t)"

text \<open>The value of \<open>stars\<close> after the floor at one.\<close>

definition day_stars :: "platform \<Rightarrow> real \<Rightarrow> real \<Rightarrow> real \<Rightarrow> int" where
  "day_stars P temp minTemp maxTemp =
     (let stars = float_to_int P (fmul (fdiv (temp - minTemp) (maxTemp - minTemp)) 5)
      in if stars \<le> 0 then 1 else stars)"

definition deg :: string where
  "deg = [CHR 0xC2, CHR 0xB0]"

definition seg_sunrise :: "stdlib \<Rightarrow> bool \<Rightarrow> History \<Rightarrow> nat \<Rightarrow> string \<Rightarrow> panic + string" where
  "seg_sunrise L showSunrise h i output =
     (if showSunrise \<and> 0 < length (Sunrise h) then
        (case index (Sunrise h) i of
           Inl p \<Rightarrow> Inl p
         | Inr s \<Rightarrow>
             (case clock L s of
                Some t \<Rightarrow> Inr (output @ '' | Sunrise: '' @ t)
              | None \<Rightarrow> Inr output))
      else Inr output)"

definition seg_sunset :: "stdlib \<Rightarrow> bool \<Rightarrow> History \<Rightarrow> nat \<Rightarrow> string \<Rightarrow> panic + string" where
  "seg_sunset L showSunset h i output =
     (if showSunset \<and> 0 < length (Sunset h) then
        (case index (Sunset h) i of
           Inl p \<Rightarrow> Inl p
         | Inr s \<Rightarrow>
             (case clock L s of
                Some t \<Rightarrow> Inr (output @ '' | Sunset: '' @ t)
              | None \<Rightarrow> Inr output))
      else Inr output)"

definition seg_precip :: "stdlib \<Rightarrow> bool \<Rightarrow> History \<Rightarrow> nat \<Rightarrow> string \<Rightarrow> panic + string" where
  "seg_precip L showPrecip h i output =
     (if showPrecip then
        (if 0 < length (Precip h) then
           (case index (Precip h) i of
              Inl p \<Rightarrow> Inl p
            | Inr x \<Rightarrow> Inr (output @ '' | Precip: '' @ fmt_f L 2 x @ '' mm''))
         else Inr output)
      else Inr output)"

definition seg_uv :: "stdlib \<Rightarrow> bool \<Rightarrow> History \<Rightarrow> nat \<Rightarrow> string \<Rightarrow> panic + string" where
  "seg_uv L showUV h i output =
     (if showUV then
        (if 0 < length (UVIndex h) then
           (case index (UVIndex h) i of
              Inl p \<Rightarrow> Inl p
            | Inr x \<Rightarrow> Inr (output @ '' | UV Index: '' @ fmt_f L 1 x))
         else Inr output)
      else Inr output)"

text \<open>
  The text of the line before the optional segments: the \<open>Sprintf\<close> of the
  second loop, given the entry \<open>w\<close> of the time array.
\<close>

definition base_line :: "platform \<Rightarrow> bool \<Rightarrow> string \<Rightarrow> real \<Rightarrow> string \<Rightarrow> string" where
  "base_line P fah pat temp w =
     pat @ '' '' @ fmt_02d (float_to_int P (Fin temp)) @ '' '' @ deg
     @ (if fah then ''F'' else ''C'') @ '' | '' @ w"

text \<open>
  One iteration of the second loop: the lines it prints and the panic that
  ends it, if any. Every indexing of an array goes through \<open>index\<close>. The
  arguments of \<open>Sprintf\<close> are evaluated left to right, so \<open>createPattern\<close>
  runs before \<open>World[i]\<close> is read.
\<close>

definition body ::
  "stdlib \<Rightarrow> platform \<Rightarrow> History \<Rightarrow> bool \<Rightarrow> bool \<Rightarrow> bool \<Rightarrow> bool \<Rightarrow> bool \<Rightarrow>
   real \<Rightarrow> real \<Rightarrow> nat \<Rightarrow> string list \<times> panic option" where
  "body L P h fah showPrecip showUV showSunrise showSunset minTemp maxTemp i =
     (case index (MaxTemps h) i of
        Inl p \<Rightarrow> ([], Some p)
      | Inr t \<Rightarrow>
     (let temp = day_temp fah t;
          stars = day_stars P temp minTemp maxTemp;
          (printed, pat) = createPattern stars True
      in case index (World h) i of
           Inl p \<Rightarrow> (printed, Some p)
         | Inr w \<Rightarrow>
        (case seg_sunrise L showSunrise h i (base_line P fah pat temp w) of
           Inl p \<Rightarrow> (printed, Some p)
         | Inr o1 \<Rightarrow>
        (case seg_sunset L showSunset h i o1 of
           Inl p \<Rightarrow> (printed, Some p)
         | Inr o2 \<Rightarrow>
        (case seg_precip L showPrecip h i o2 of
           Inl p \<Rightarrow> (printed, Some p)
         | Inr o3 \<Rightarrow>
        (case seg_uv L showUV h i o3 of
           Inl p \<Rightarrow> (printed, Some p)
         | Inr o4 \<Rightarrow> (printed @ [o4], None)))))))"

function render_loop ::
  "stdlib \<Rightarrow> platform \<Rightarrow> History \<Rightarrow> bool \<Rightarrow> bool \<Rightarrow> bool \<Rightarrow> bool \<Rightarrow> bool \<Rightarrow>
   real \<Rightarrow> real \<Rightarrow> nat \<Rightarrow> string list \<Rightarrow> string list \<times> panic option" where
  "render_loop L P h fah showPrecip showUV showSunrise showSunset minTemp maxTemp i out =
     (if i < length (MaxTemps h) then
        (case body L P h fah showPrecip showUV showSunrise showSunset minTemp maxTemp i of
           (lines, Some p) \<Rightarrow> (out @ lines, Some p)
         | (lines, None) \<Rightarrow>
             render_loop L P h fah showPrecip showUV showSunrise showSunset minTemp maxTemp
               (Suc i) (out @ lines))
      else (out, None))"
  by pat_completeness auto
termination
  by (relation "measure (\<lambda>(L, P, h, fah, sp, suv, ssr, sss, mn, mx, i, out). length (MaxTemps h) - i)")
     auto

declare render_loop.simps [simp del]

text \<open>
  \<open>processJsonData\<close> itself: what it writes to standard output, and the panic
  that stops it, if any.
\<close>

definition render ::
  "stdlib \<Rightarrow> platform \<Rightarrow> History \<Rightarrow> bool \<Rightarrow> bool \<Rightarrow> bool \<Rightarrow> bool \<Rightarrow> bool \<Rightarrow>
   string list \<times> panic option" where
  "render L P h fah showPrecip showUV showSunrise showSunset =
     (let (minTemp, maxTemp) = scan fah (MaxTemps h) (0, 0)
      in render_loop L P h fah showPrecip showUV showSunrise showSunset minTemp maxTemp 0 [])"

definition processJsonData ::
  "stdlib \<Rightarrow> platform \<Rightarrow> string \<Rightarrow> bool \<Rightarrow> bool \<Rightarrow> bool \<Rightarrow> bool \<Rightarrow> bool \<Rightarrow>
   string list \<times> panic option" where
  "processJsonData L P jsonData fah showPrecip showUV showSunrise showSunset =
     (case unmarshal_forecast L jsonData of
        Inl err \<Rightarrow> ([''Error: '' @ err], None)
      | Inr resp \<Rightarrow> render L P (History resp) fah showPrecip showUV showSunrise showSunset)"

subsection \<open>Location lookup\<close>

text \<open>
  A call either returns to its caller or ends the process (\<open>log.Fatalf\<close>).
\<close>

datatype 'a exit = Returned 'a | Fatal string

text \<open>The candidate loop of \<open>FindCityLocation\<close>, in the order of the response.\<close>

fun match_loop :: "GeoCodingResult list \<Rightarrow> City \<Rightarrow> (string \<times> string) option" where
  "match_loop [] city = None"
| "match_loop (r # rs) city =
     (if Country_res r = Country city then Some (Latitude r, Longitude r)
      else match_loop rs city)"

definition no_match_error :: "City \<Rightarrow> error" where
  "no_match_error city =
     ''Could not find a proper location match for '' @ Name city
     @ '' of country '' @ Country city"

text \<open>The request of \<open>FindCityLocation\<close>: its local \<open>api_url\<close>.\<close>

definition geocoding_url :: "stdlib \<Rightarrow> City \<Rightarrow> string" where
  "geocoding_url L city =
     (let api_params =
            path_escape L (''name='' @ Name city @ ''&count=10&language=en&format=json'');
          api_url = ''https://geocoding-api.open-meteo.com/v1/search?'' @ api_params
      in api_url)"

definition FindCityLocation :: "stdlib \<Rightarrow> City \<Rightarrow> (string \<times> string \<times> error option) exit" where
  "FindCityLocation L city =
     (case http_get L (geocoding_url L city) of
        Inl err \<Rightarrow> Returned ([], [], Some err)
      | Inr response \<Rightarrow>
     (case read_all L response of
        Inl err \<Rightarrow> Returned ([], [], Some err)
      | Inr responseData \<Rightarrow>
     (case unmarshal_geo L responseData of
        Inl err \<Rightarrow> Fatal (''Error unmarshalling JSON: '' @ err)
      | Inr geocodingResponse \<Rightarrow>
     (case match_loop (GeoCodingResults geocodingResponse) city of
        Some (lat, lon) \<Rightarrow> Returned (lat, lon, None)
      | None \<Rightarrow> Returned ([], [], Some (no_match_error city))))))"

subsection \<open>A concrete environment\<close>

text \<open>
  For evaluation on concrete inputs: a library whose geocoding service answers
  every request with the candidate list \<open>rs\<close>, whose forecast decoder yields
  the payload \<open>h\<close>, whose clock parser accepts exactly the 16-byte timestamps
  and keeps their last five bytes, and whose float formatter prints the
  truncated integer part only.
\<close>

definition sample_lib :: "GeoCodingResult list \<Rightarrow> History \<Rightarrow> stdlib" where
  "sample_lib rs h =
     \<lparr>http_get = (\<lambda>url. Inr url),
      read_all = (\<lambda>body. Inr body),
      path_escape = (\<lambda>s. s),
      unmarshal_geo = (\<lambda>d. Inr \<lparr>GeoCodingResults = rs\<rparr>),
      unmarshal_forecast = (\<lambda>d. Inr \<lparr>History = h\<rparr>),
      clock = (\<lambda>s. if length s = 16 then Some (drop 11 s) else None),
      fmt_f = (\<lambda>n x. show_int (trunc x))\<rparr>"

definition sample_history :: "real list \<Rightarrow> string list \<Rightarrow> History" where
  "sample_history ts days =
     \<lparr>MaxTemps = ts, MinTemps = [], UVIndex = [], Sunrise = [], Sunset = [],
      Precip = [], World = days\<rparr>"

subsection \<open>Auxiliary functions for the proofs\<close>

text \<open>
  The line of day \<open>i\<close> as a value: what one iteration of the second loop
  appends to the output when \<open>createPattern\<close> prints nothing.
\<close>

definition day_line ::
  "stdlib \<Rightarrow> platform \<Rightarrow> History \<Rightarrow> bool \<Rightarrow> bool \<Rightarrow> bool \<Rightarrow> bool \<Rightarrow> bool \<Rightarrow>
   real \<Rightarrow> real \<Rightarrow> nat \<Rightarrow> panic + string" where
  "day_line L P h fah showPrecip showUV showSunrise showSunset minTemp maxTemp i =
     (case index (MaxTemps h) i of
        Inl p \<Rightarrow> Inl p
      | Inr t \<Rightarrow>
     (case index (World h) i of
        Inl p \<Rightarrow> Inl p
      | Inr w \<Rightarrow>
     (case seg_sunrise L showSunrise h i
             (base_line P fah
                (snd (createPattern (day_stars P (day_temp fah t) minTemp maxTemp) True))
                (day_temp fah t) w) of
        Inl p \<Rightarrow> Inl p
      | Inr o1 \<Rightarrow>
     (case seg_sunset L showSunset h i o1 of
        Inl p \<Rightarrow> Inl p
      | Inr o2 \<Rightarrow>
     (case seg_precip L showPrecip h i o2 of
        Inl p \<Rightarrow> Inl p
      | Inr o3 \<Rightarrow> seg_uv L showUV h i o3)))))"

text \<open>The lines up to the first panic.\<close>

fun collect :: "(panic + string) list \<Rightarrow> string list \<times> panic option" where
  "collect [] = ([], None)"
| "collect (Inl p # rs) = ([], Some p)"
| "collect (Inr l # rs) = (case collect rs of (ls, pn) \<Rightarrow> (l # ls, pn))"


subsection \<open>Concrete payloads\<close>

definition week_10_15_20 :: History where
  "week_10_15_20 = sample_history [10, 15, 20] [''2024-05-01'', ''2024-05-02'', ''2024-05-03'']"

definition plain_lib :: stdlib where
  "plain_lib = sample_lib [] week_10_15_20"

definition days3 :: "string list" where
  "days3 = [''2024-05-01'', ''2024-05-02'', ''2024-05-03'']"

definition flat_week :: History where
  "flat_week = sample_history [10, 10, 10] days3"

definition frost_week :: History where
  "frost_week = sample_history [-5, -5, -5] days3"

definition short_sunrise :: History where
  "short_sunrise = (sample_history [10, 20] [''2024-05-01'', ''2024-05-02''])
                     \<lparr>Sunrise := [''2024-05-01T06:30'']\<rparr>"

definition rain_week :: History where
  "rain_week = (sample_history [10, 15, 20] days3)\<lparr>Precip := [0, 3, 1]\<rparr>"

definition full_week :: History where
  "full_week = (sample_history [10, 15, 20] days3)
     \<lparr>UVIndex := [4, 5, 6],
      Sunrise := [''2024-05-01T06:30'', ''2024-05-02T06:29'', ''2024-05-03T06:27''],
      Precip := [0, 3, 1]\<rparr>"

definition paris_candidates :: "GeoCodingResult list" where
  "paris_candidates =
     [\<lparr>Name_res = ''Paris'', Latitude = ''33.66094'', Longitude = ''-95.55551'',
        Country_res = ''United States''\<rparr>,
      \<lparr>Name_res = ''Paris'', Latitude = ''48.85341'', Longitude = ''2.3488'',
        Country_res = ''France''\<rparr>,
      \<lparr>Name_res = ''Paris 01 Louvre'', Latitude = ''48.8592'', Longitude = ''2.3417'',
        Country_res = ''France''\<rparr>]"

definition geo_lib :: stdlib where
  "geo_lib = sample_lib paris_candidates week_10_15_20"

definition paris_france :: City where
  "paris_france = \<lparr>Name = ''Paris'', Country = ''France''\<rparr>"

definition paris_lowercase :: City where
  "paris_lowercase = \<lparr>Name = ''Paris'', Country = ''france''\<rparr>"

definition warm_days :: History where
  "warm_days = sample_history [68, 50] [''2024-05-01'', ''2024-05-02'']"

definition only_fahr :: ForecastParams where
  "only_fahr = \<lparr>Precipitation = False, Sunrise_flag = False, Sunset_flag = False,
                 UVIndex_flag = False, Fahr = True\<rparr>"

text \<open>
  The result of converting NaN to \<open>int\<close> is left to the implementation; this
  table, with a result above five, exercises the cap of \<open>createPattern\<close>.
\<close>

definition nan_seven :: platform where
  "nan_seven = \<lparr>nan_int = 7, pinf_int = 7, ninf_int = 7\<rparr>"

section \<open>Properties\<close>

subsection \<open>Evaluation rules\<close>

lemmas render_eval =
  render_def render_loop.simps body_def day_temp_def day_stars_def fdiv_def trunc_def
  createPattern_def index_def seg_sunrise_def seg_sunset_def seg_precip_def seg_uv_def
  base_line_def fmt_02d_def zero_pad_def show_nat.simps show_int_def sample_history_def

subsection \<open>The second loop as a list of day lines\<close>

lemma day_stars_ge_1: "1 \<le> day_stars P temp minTemp maxTemp"
  by (simp add: day_stars_def Let_def)

lemma createPattern_pos:
  "1 \<le> n \<Longrightarrow>
   createPattern n b =
     ([], replicate (nat (min n 5)) CHR ''*'' @ replicate (nat (5 - min n 5)) CHR '' '')"
  by (simp add: createPattern_def min_def)

lemma createPattern_day_stars_silent:
  "fst (createPattern (day_stars P temp minTemp maxTemp) b) = []"
  using createPattern_pos [OF day_stars_ge_1] by simp

lemma body_day_line:
  "body L P h fah sp suv ssr sss mn mx i =
     (case day_line L P h fah sp suv ssr sss mn mx i of
        Inl p \<Rightarrow> ([], Some p)
      | Inr l \<Rightarrow> ([l], None))"
proof (cases "index (MaxTemps h) i")
  case (Inl p)
  then show ?thesis by (simp add: body_def day_line_def)
next
  case (Inr t)
  obtain pr pat where cp: "createPattern (day_stars P (day_temp fah t) mn mx) True = (pr, pat)"
    by (cases "createPattern (day_stars P (day_temp fah t) mn mx) True")
  have "pr = []"
    using createPattern_day_stars_silent [of P "day_temp fah t" mn mx True] cp by simp
  then show ?thesis
    using cp Inr by (simp add: body_def day_line_def split: sum.splits)
qed

lemma render_loop_collect:
  "render_loop L P h fah sp suv ssr sss mn mx i out =
     (case collect (map (day_line L P h fah sp suv ssr sss mn mx) [i..<length (MaxTemps h)]) of
        (ls, pn) \<Rightarrow> (out @ ls, pn))"
proof (induction L P h fah sp suv ssr sss mn mx i out rule: render_loop.induct)
  case (1 L P h fah sp suv ssr sss mn mx i out)
  show ?case
  proof (cases "i < length (MaxTemps h)")
    case False
    then show ?thesis by (simp add: render_loop.simps)
  next
    case True
    then have upt: "[i..<length (MaxTemps h)] = i # [Suc i..<length (MaxTemps h)]"
      by (simp add: upt_conv_Cons)
    show ?thesis
    proof (cases "day_line L P h fah sp suv ssr sss mn mx i")
      case (Inl p)
      then show ?thesis
        using True upt by (simp add: render_loop.simps [of _ _ _ _ _ _ _ _ _ _ i] body_day_line)
    next
      case (Inr l)
      then have b: "body L P h fah sp suv ssr sss mn mx i = ([l], None)"
        by (simp add: body_day_line)
      have "render_loop L P h fah sp suv ssr sss mn mx i out =
            render_loop L P h fah sp suv ssr sss mn mx (Suc i) (out @ [l])"
        using True b by (simp add: render_loop.simps [of _ _ _ _ _ _ _ _ _ _ i])
      also have "\<dots> = (case collect (map (day_line L P h fah sp suv ssr sss mn mx)
                        [Suc i..<length (MaxTemps h)]) of (ls, pn) \<Rightarrow> ((out @ [l]) @ ls, pn))"
        using "1.IH" [OF True b [symmetric] refl] by simp
      finally show ?thesis
        using upt Inr by (simp split: prod.splits)
    qed
  qed
qed

lemma render_collect:
  "render L P h fah sp suv ssr sss =
     collect (map (day_line L P h fah sp suv ssr sss
                     (fst (scan fah (MaxTemps h) (0, 0))) (snd (scan fah (MaxTemps h) (0, 0))))
                [0..<length (MaxTemps h)])"
  by (simp add: render_def render_loop_collect split: prod.splits)

lemma collect_nth:
  "collect rs = (ls, pn) \<Longrightarrow> j < length ls \<Longrightarrow> j < length rs \<and> rs ! j = Inr (ls ! j)"
proof (induction rs arbitrary: ls pn j rule: collect.induct)
  case 1
  then show ?case by simp
next
  case (2 p rs)
  then show ?case by simp
next
  case (3 l rs)
  obtain ls' pn' where c: "collect rs = (ls', pn')" by (cases "collect rs")
  with "3.prems" have ls: "ls = l # ls'" by simp
  show ?case
  proof (cases j)
    case 0
    then show ?thesis using ls by simp
  next
    case (Suc k)
    then have "k < length ls'" using "3.prems"(2) ls by simp
    from "3.IH" [OF c this] show ?thesis using Suc ls by simp
  qed
qed

lemma collect_all_Inr:
  "(\<And>r. r \<in> set rs \<Longrightarrow> \<exists>l. r = Inr l) \<Longrightarrow>
   snd (collect rs) = None \<and> length (fst (collect rs)) = length rs"
proof (induction rs rule: collect.induct)
  case 1
  then show ?case by simp
next
  case (2 p rs)
  from "2.prems" [of "Inl p"] show ?case by simp
next
  case (3 l rs)
  have "snd (collect rs) = None \<and> length (fst (collect rs)) = length rs"
    using "3.IH" "3.prems" by simp
  then show ?case by (cases "collect rs") simp
qed

lemma seg_sunrise_app: "seg_sunrise L en h i out = Inr out' \<Longrightarrow> \<exists>s. out' = out @ s"
  by (auto simp: seg_sunrise_def split: if_splits sum.splits option.splits)

lemma seg_sunset_app: "seg_sunset L en h i out = Inr out' \<Longrightarrow> \<exists>s. out' = out @ s"
  by (auto simp: seg_sunset_def split: if_splits sum.splits option.splits)

lemma seg_precip_app: "seg_precip L en h i out = Inr out' \<Longrightarrow> \<exists>s. out' = out @ s"
  by (auto simp: seg_precip_def split: if_splits sum.splits)

lemma seg_uv_app: "seg_uv L en h i out = Inr out' \<Longrightarrow> \<exists>s. out' = out @ s"
  by (auto simp: seg_uv_def split: if_splits sum.splits)

lemma seg_sunrise_ok:
  "\<not> en \<or> Sunrise h = [] \<or> i < length (Sunrise h) \<Longrightarrow> \<exists>o1. seg_sunrise L en h i out = Inr o1"
  by (auto simp: seg_sunrise_def index_def split: option.splits)

lemma seg_sunset_ok:
  "\<not> en \<or> Sunset h = [] \<or> i < length (Sunset h) \<Longrightarrow> \<exists>o1. seg_sunset L en h i out = Inr o1"
  by (auto simp: seg_sunset_def index_def split: option.splits)

lemma seg_precip_ok:
  "\<not> en \<or> Precip h = [] \<or> i < length (Precip h) \<Longrightarrow> \<exists>o1. seg_precip L en h i out = Inr o1"
  by (auto simp: seg_precip_def index_def)

lemma seg_uv_ok:
  "\<not> en \<or> UVIndex h = [] \<or> i < length (UVIndex h) \<Longrightarrow> \<exists>o1. seg_uv L en h i out = Inr o1"
  by (auto simp: seg_uv_def index_def)

lemma seg_sunrise_mask: "seg_sunrise L (en \<and> Sunrise h \<noteq> []) h i out = seg_sunrise L en h i out"
  by (simp add: seg_sunrise_def)

lemma seg_sunset_mask: "seg_sunset L (en \<and> Sunset h \<noteq> []) h i out = seg_sunset L en h i out"
  by (simp add: seg_sunset_def)

lemma seg_precip_mask: "seg_precip L (en \<and> Precip h \<noteq> []) h i out = seg_precip L en h i out"
  by (simp add: seg_precip_def)

lemma seg_uv_mask: "seg_uv L (en \<and> UVIndex h \<noteq> []) h i out = seg_uv L en h i out"
  by (simp add: seg_uv_def)

lemma day_line_Inr:
  assumes "day_line L P h fah sp suv ssr sss mn mx i = Inr l"
  shows "i < length (MaxTemps h) \<and> i < length (World h) \<and>
         (\<exists>s. l = base_line P fah
                  (snd (createPattern (day_stars P (day_temp fah (MaxTemps h ! i)) mn mx) True))
                  (day_temp fah (MaxTemps h ! i)) (World h ! i) @ s)"
proof -
  from assms have i1: "i < length (MaxTemps h)"
    by (auto simp: day_line_def index_def split: if_splits sum.splits)
  from assms have i2: "i < length (World h)"
    by (auto simp: day_line_def index_def split: if_splits sum.splits)
  let ?b = "base_line P fah
              (snd (createPattern (day_stars P (day_temp fah (MaxTemps h ! i)) mn mx) True))
              (day_temp fah (MaxTemps h ! i)) (World h ! i)"
  from assms i1 i2 obtain o1 o2 o3 where
    s1: "seg_sunrise L ssr h i ?b = Inr o1" and
    s2: "seg_sunset L sss h i o1 = Inr o2" and
    s3: "seg_precip L sp h i o2 = Inr o3" and
    s4: "seg_uv L suv h i o3 = Inr l"
    by (auto simp: day_line_def index_def split: sum.splits)
  from seg_sunrise_app [OF s1] seg_sunset_app [OF s2] seg_precip_app [OF s3] seg_uv_app [OF s4]
  have "\<exists>s. l = ?b @ s" by auto
  with i1 i2 show ?thesis by simp
qed

lemma day_line_ok:
  assumes "i < length (MaxTemps h)" and "i < length (World h)"
    and "\<not> ssr \<or> Sunrise h = [] \<or> i < length (Sunrise h)"
    and "\<not> sss \<or> Sunset h = [] \<or> i < length (Sunset h)"
    and "\<not> sp \<or> Precip h = [] \<or> i < length (Precip h)"
    and "\<not> suv \<or> UVIndex h = [] \<or> i < length (UVIndex h)"
  shows "\<exists>l. day_line L P h fah sp suv ssr sss mn mx i = Inr l"
proof -
  let ?b = "base_line P fah
              (snd (createPattern (day_stars P (day_temp fah (MaxTemps h ! i)) mn mx) True))
              (day_temp fah (MaxTemps h ! i)) (World h ! i)"
  obtain o1 where s1: "seg_sunrise L ssr h i ?b = Inr o1"
    using seg_sunrise_ok [OF assms(3)] by blast
  obtain o2 where s2: "seg_sunset L sss h i o1 = Inr o2"
    using seg_sunset_ok [OF assms(4)] by blast
  obtain o3 where s3: "seg_precip L sp h i o2 = Inr o3"
    using seg_precip_ok [OF assms(5)] by blast
  obtain o4 where s4: "seg_uv L suv h i o3 = Inr o4"
    using seg_uv_ok [OF assms(6)] by blast
  show ?thesis
    using assms(1,2) s1 s2 s3 s4 by (simp add: day_line_def index_def)
qed

lemma day_line_mask:
  "day_line L P h fah (sp \<and> Precip h \<noteq> []) (suv \<and> UVIndex h \<noteq> [])
     (ssr \<and> Sunrise h \<noteq> []) (sss \<and> Sunset h \<noteq> []) mn mx i =
   day_line L P h fah sp suv ssr sss mn mx i"
  by (simp only: day_line_def seg_sunrise_mask seg_sunset_mask seg_precip_mask seg_uv_mask)

lemma render_line:
  assumes r: "render L P h fah sp suv ssr sss = (lines, pn)" and i: "i < length lines"
  shows "i < length (MaxTemps h) \<and> i < length (World h) \<and>
         (\<exists>s. lines ! i =
            base_line P fah
              (snd (createPattern
                 (day_stars P (day_temp fah (MaxTemps h ! i))
                    (fst (scan fah (MaxTemps h) (0, 0))) (snd (scan fah (MaxTemps h) (0, 0))))
                 True))
              (day_temp fah (MaxTemps h ! i)) (World h ! i) @ s)"
proof -
  let ?mn = "fst (scan fah (MaxTemps h) (0, 0))" and ?mx = "snd (scan fah (MaxTemps h) (0, 0))"
  let ?rs = "map (day_line L P h fah sp suv ssr sss ?mn ?mx) [0..<length (MaxTemps h)]"
  have c: "collect ?rs = (lines, pn)"
    using r by (simp add: render_collect)
  from collect_nth [OF c i] have j: "i < length ?rs" and n: "?rs ! i = Inr (lines ! i)"
    by simp_all
  from j have i1: "i < length (MaxTemps h)" by simp
  with n have "day_line L P h fah sp suv ssr sss ?mn ?mx i = Inr (lines ! i)" by simp
  from day_line_Inr [OF this] show ?thesis .
qed

lemma pattern_shape:
  "\<exists>k. 1 \<le> k \<and> k \<le> 5 \<and>
       snd (createPattern (day_stars P t mn mx) b) =
         replicate k CHR ''*'' @ replicate (5 - k) CHR '' ''"
proof -
  let ?n = "day_stars P t mn mx"
  have n: "1 \<le> ?n" by (rule day_stars_ge_1)
  let ?k = "nat (min ?n 5)"
  have "1 \<le> ?k" "?k \<le> 5" using n by simp_all
  moreover have "nat (5 - min ?n 5) = 5 - ?k" using n by simp
  then have "snd (createPattern ?n b) = replicate ?k CHR ''*'' @ replicate (5 - ?k) CHR '' ''"
    using createPattern_pos [OF n, of b] by simp
  ultimately show ?thesis by blast
qed

lemma take_5_base_line:
  "length pat = 5 \<Longrightarrow> take 5 (base_line P fah pat temp w @ s) = pat"
  by (simp add: base_line_def)

text \<open>
  The shape of a printed line: the indicator, the integer part of \<open>temp\<close>, the
  unit and the entry of the time array. The number of filled marks is left
  open, between one and five, since it depends on the rounding of the quotient.
\<close>

lemma render_line_indicator:
  assumes "render L P h fah sp suv ssr sss = (lines, pn)" and "i < length lines"
  shows "\<exists>k rest. 1 \<le> k \<and> k \<le> 5 \<and>
           lines ! i =
             replicate k CHR ''*'' @ replicate (5 - k) CHR '' '' @ '' ''
             @ fmt_02d (float_to_int P (Fin (day_temp fah (MaxTemps h ! i)))) @ '' '' @ deg
             @ (if fah then ''F'' else ''C'') @ '' | '' @ World h ! i @ rest"
proof -
  let ?t = "day_temp fah (MaxTemps h ! i)"
  let ?mn = "fst (scan fah (MaxTemps h) (0, 0))" and ?mx = "snd (scan fah (MaxTemps h) (0, 0))"
  let ?pat = "snd (createPattern (day_stars P ?t ?mn ?mx) True)"
  from render_line [OF assms] obtain s where
    l: "lines ! i = base_line P fah ?pat ?t (World h ! i) @ s" by blast
  obtain k where k: "1 \<le> k" "k \<le> 5"
    and p: "?pat = replicate k CHR ''*'' @ replicate (5 - k) CHR '' ''"
    using pattern_shape [of P ?t ?mn ?mx True] by blast
  from l p have "lines ! i =
             replicate k CHR ''*'' @ replicate (5 - k) CHR '' '' @ '' ''
             @ fmt_02d (float_to_int P (Fin ?t)) @ '' '' @ deg
             @ (if fah then ''F'' else ''C'') @ '' | '' @ World h ! i @ s"
    by (simp add: base_line_def)
  with k show ?thesis by blast
qed

lemma render_no_panic:
  assumes w: "length (MaxTemps h) \<le> length (World h)"
    and "\<not> ssr \<or> Sunrise h = [] \<or> length (MaxTemps h) \<le> length (Sunrise h)"
    and "\<not> sss \<or> Sunset h = [] \<or> length (MaxTemps h) \<le> length (Sunset h)"
    and "\<not> sp \<or> Precip h = [] \<or> length (MaxTemps h) \<le> length (Precip h)"
    and "\<not> suv \<or> UVIndex h = [] \<or> length (MaxTemps h) \<le> length (UVIndex h)"
  shows "snd (render L P h fah sp suv ssr sss) = None \<and>
         length (fst (render L P h fah sp suv ssr sss)) = length (MaxTemps h)"
proof -
  let ?mn = "fst (scan fah (MaxTemps h) (0, 0))" and ?mx = "snd (scan fah (MaxTemps h) (0, 0))"
  let ?rs = "map (day_line L P h fah sp suv ssr sss ?mn ?mx) [0..<length (MaxTemps h)]"
  have "\<exists>l. r = Inr l" if "r \<in> set ?rs" for r
  proof -
    from that obtain i where i: "i < length (MaxTemps h)"
      and r: "r = day_line L P h fah sp suv ssr sss ?mn ?mx i" by auto
    have "\<exists>l. day_line L P h fah sp suv ssr sss ?mn ?mx i = Inr l"
      using i assms by (intro day_line_ok) auto
    with r show ?thesis by simp
  qed
  from collect_all_Inr [of ?rs, OF this] show ?thesis
    by (simp add: render_collect)
qed

lemma render_week_10_15_20:
  "render plain_lib amd64 week_10_15_20 False False False False False =
     ([''*     10 '' @ deg @ ''C | 2024-05-01'',
       ''**    15 '' @ deg @ ''C | 2024-05-02'',
       ''***** 20 '' @ deg @ ''C | 2024-05-03''], None)"
  by (simp add: week_10_15_20_def render_eval) (simp add: eval_nat_numeral)

subsection \<open>The worked example of the specification\<close>

text \<open>
  Claim C8. For the max-temperatures 10, 15 and 20 degrees Celsius with
  \<open>useFahrenheit = false\<close> the scan yields \<open>minTemp = 10\<close> and \<open>maxTemp = 20\<close>,
  and the three days get 1, 2 and 5 filled marks, on every platform and with
  every library: the printed lines are shown in full.
\<close>

theorem round_trip_10_15_20:
  "scan False [10, 15, 20] (0, 0) = (10, 20)
   \<and> map (\<lambda>t. day_stars P t 10 20) [10, 15, 20] = [1, 2, 5]
   \<and> render L P (sample_history [10, 15, 20] [d1, d2, d3]) False False False False False =
       ([''*     10 '' @ deg @ ''C | '' @ d1,
         ''**    15 '' @ deg @ ''C | '' @ d2,
         ''***** 20 '' @ deg @ ''C | '' @ d3], None)"
  by (simp add: render_eval) (simp add: eval_nat_numeral)

subsection \<open>Range of the indicator\<close>

text \<open>
  Claim C2. Whatever the series and the options, every line the renderer prints
  starts with an indicator made of \<open>k\<close> filled marks followed by \<open>5 - k\<close>
  blanks, with \<open>k\<close> between 1 and 5, and the blank that separates it from
  the temperature comes right after: the floor at one of \<open>processJsonData\<close>
  and the cap at five of \<open>createPattern\<close>.
\<close>

theorem intensity_in_range:
  assumes "render L P h fah showPrecip showUV showSunrise showSunset = (lines, pn)"
    and "i < length lines"
  shows "\<exists>k rest. 1 \<le> k \<and> k \<le> 5 \<and>
           lines ! i = replicate k CHR ''*'' @ replicate (5 - k) CHR '' '' @ CHR '' '' # rest"
proof -
  from render_line_indicator [OF assms] obtain k rest where
    "1 \<le> k" "k \<le> 5"
    "lines ! i =
       replicate k CHR ''*'' @ replicate (5 - k) CHR '' '' @ '' ''
       @ fmt_02d (float_to_int P (Fin (day_temp fah (MaxTemps h ! i)))) @ '' '' @ deg
       @ (if fah then ''F'' else ''C'') @ '' | '' @ World h ! i @ rest"
    by blast
  then show ?thesis by auto
qed

lemma render_flat_week_nan_seven:
  "render plain_lib nan_seven flat_week False False False False False =
     ([''***** 10 '' @ deg @ ''C | 2024-05-01'',
       ''***** 10 '' @ deg @ ''C | 2024-05-02'',
       ''***** 10 '' @ deg @ ''C | 2024-05-03''], None)"
  by (simp add: flat_week_def days3_def nan_seven_def render_eval)
     (simp add: eval_nat_numeral)

theorem intensity_in_range_witness:
  "render plain_lib amd64 week_10_15_20 False False False False False =
     ([''*     10 '' @ deg @ ''C | 2024-05-01'',
       ''**    15 '' @ deg @ ''C | 2024-05-02'',
       ''***** 20 '' @ deg @ ''C | 2024-05-03''], None)
   \<and> (\<exists>k rest. 1 \<le> k \<and> k \<le> 5 \<and>
          [''*     10 '' @ deg @ ''C | 2024-05-01'',
           ''**    15 '' @ deg @ ''C | 2024-05-02'',
           ''***** 20 '' @ deg @ ''C | 2024-05-03''] ! 1 =
            replicate k CHR ''*'' @ replicate (5 - k) CHR '' '' @ CHR '' '' # rest)
   \<and> ''**    15 '' @ deg @ ''C | 2024-05-02'' =
        replicate 2 CHR ''*'' @ replicate (5 - 2) CHR '' '' @ CHR '' ''
        # (''15 '' @ deg @ ''C | 2024-05-02'')
   \<and> day_stars nan_seven 10 10 10 = 7
   \<and> render plain_lib nan_seven flat_week False False False False False =
       ([''***** 10 '' @ deg @ ''C | 2024-05-01'',
         ''***** 10 '' @ deg @ ''C | 2024-05-02'',
         ''***** 10 '' @ deg @ ''C | 2024-05-03''], None)
   \<and> (\<exists>k rest. 1 \<le> k \<and> k \<le> 5 \<and>
          [''***** 10 '' @ deg @ ''C | 2024-05-01'',
           ''***** 10 '' @ deg @ ''C | 2024-05-02'',
           ''***** 10 '' @ deg @ ''C | 2024-05-03''] ! 0 =
            replicate k CHR ''*'' @ replicate (5 - k) CHR '' '' @ CHR '' '' # rest)"
proof -
  have i: "1 < length [''*     10 '' @ deg @ ''C | 2024-05-01'',
                       ''**    15 '' @ deg @ ''C | 2024-05-02'',
                       ''***** 20 '' @ deg @ ''C | 2024-05-03'']"
    and j: "0 < length [''***** 10 '' @ deg @ ''C | 2024-05-01'',
                        ''***** 10 '' @ deg @ ''C | 2024-05-02'',
                        ''***** 10 '' @ deg @ ''C | 2024-05-03'']"
    by simp_all
  have e: "''**    15 '' @ deg @ ''C | 2024-05-02'' =
        replicate 2 CHR ''*'' @ replicate (5 - 2) CHR '' '' @ CHR '' ''
        # (''15 '' @ deg @ ''C | 2024-05-02'')"
    by (simp add: eval_nat_numeral)
  have s: "day_stars nan_seven 10 10 10 = 7"
    by (simp add: day_stars_def fdiv_def nan_seven_def)
  note a = intensity_in_range [OF render_week_10_15_20 i]
  note b = intensity_in_range [OF render_flat_week_nan_seven j]
  show ?thesis
    using render_week_10_15_20 render_flat_week_nan_seven a b e s by blast
qed

subsection \<open>Array indexing\<close>

text \<open>
  Claim C10. When the time array is at least as long as the array of maximum
  temperatures and every optional array is empty or at least as long, the
  second loop reads no array out of range, for every combination of the display
  options: no panic ends the run and one line is printed per day.
\<close>

theorem render_in_bounds:
  assumes "length (MaxTemps h) \<le> length (World h)"
    and "Sunrise h = [] \<or> length (MaxTemps h) \<le> length (Sunrise h)"
    and "Sunset h = [] \<or> length (MaxTemps h) \<le> length (Sunset h)"
    and "Precip h = [] \<or> length (MaxTemps h) \<le> length (Precip h)"
    and "UVIndex h = [] \<or> length (MaxTemps h) \<le> length (UVIndex h)"
  shows "snd (render L P h fah showPrecip showUV showSunrise showSunset) = None \<and>
         length (fst (render L P h fah showPrecip showUV showSunrise showSunset)) =
           length (MaxTemps h)"
  using assms by (intro render_no_panic) auto

lemma render_full_week:
  "render plain_lib arm64 full_week True True True True True =
     ([''*     50 '' @ deg @ ''F | 2024-05-01 | Sunrise: 06:30 | Precip: 0 mm | UV Index: 4'',
       ''**    59 '' @ deg @ ''F | 2024-05-02 | Sunrise: 06:29 | Precip: 3 mm | UV Index: 5'',
       ''***** 68 '' @ deg @ ''F | 2024-05-03 | Sunrise: 06:27 | Precip: 1 mm | UV Index: 6''],
      None)"
  by (simp add: full_week_def days3_def plain_lib_def sample_lib_def render_eval)
     (simp add: eval_nat_numeral)

theorem render_in_bounds_witness:
  "length (MaxTemps full_week) \<le> length (World full_week)
   \<and> length (MaxTemps full_week) \<le> length (Sunrise full_week)
   \<and> Sunset full_week = []
   \<and> length (MaxTemps full_week) \<le> length (Precip full_week)
   \<and> length (MaxTemps full_week) \<le> length (UVIndex full_week)
   \<and> render plain_lib arm64 full_week True True True True True =
       ([''*     50 '' @ deg @ ''F | 2024-05-01 | Sunrise: 06:30 | Precip: 0 mm | UV Index: 4'',
         ''**    59 '' @ deg @ ''F | 2024-05-02 | Sunrise: 06:29 | Precip: 3 mm | UV Index: 5'',
         ''***** 68 '' @ deg @ ''F | 2024-05-03 | Sunrise: 06:27 | Precip: 1 mm | UV Index: 6''],
        None)
   \<and> snd (render plain_lib arm64 full_week True True True True True) = None
   \<and> length (fst (render plain_lib arm64 full_week True True True True True)) = 3"
proof -
  have a: "length (MaxTemps full_week) \<le> length (World full_week)"
    and b: "length (MaxTemps full_week) \<le> length (Sunrise full_week)"
    and c: "Sunset full_week = []"
    and d: "length (MaxTemps full_week) \<le> length (Precip full_week)"
    and e: "length (MaxTemps full_week) \<le> length (UVIndex full_week)"
    and n: "length (MaxTemps full_week) = 3"
    by (simp_all add: full_week_def sample_history_def days3_def)
  from render_in_bounds [OF a disjI2 [OF b] disjI1 [OF c] disjI2 [OF d] disjI2 [OF e],
      of plain_lib arm64 True True True True True]
  show ?thesis using a b c d e n render_full_week by simp
qed

subsection \<open>Optional fields\<close>

lemma render_mask:
  "render L P h fah (sp \<and> Precip h \<noteq> []) (suv \<and> UVIndex h \<noteq> [])
     (ssr \<and> Sunrise h \<noteq> []) (sss \<and> Sunset h \<noteq> []) =
   render L P h fah sp suv ssr sss"
proof -
  have "day_line L P h fah (sp \<and> Precip h \<noteq> []) (suv \<and> UVIndex h \<noteq> [])
          (ssr \<and> Sunrise h \<noteq> []) (sss \<and> Sunset h \<noteq> []) mn mx =
        day_line L P h fah sp suv ssr sss mn mx" for mn mx
    by (rule ext) (rule day_line_mask)
  then show ?thesis by (simp only: render_collect)
qed

lemma render_flags_cong:
  "(sp \<and> Precip h \<noteq> []) = (sp' \<and> Precip h \<noteq> []) \<Longrightarrow>
   (suv \<and> UVIndex h \<noteq> []) = (suv' \<and> UVIndex h \<noteq> []) \<Longrightarrow>
   (ssr \<and> Sunrise h \<noteq> []) = (ssr' \<and> Sunrise h \<noteq> []) \<Longrightarrow>
   (sss \<and> Sunset h \<noteq> []) = (sss' \<and> Sunset h \<noteq> []) \<Longrightarrow>
   render L P h fah sp suv ssr sss = render L P h fah sp' suv' ssr' sss'"
  using render_mask [of L P h fah sp suv ssr sss] render_mask [of L P h fah sp' suv' ssr' sss']
  by simp

text \<open>
  An enabled optional field whose array is absent or empty: the read is
  guarded by \<open>len(...) > 0\<close>, so the run is the same as with the field
  switched off, and when the time array and the remaining enabled arrays cover
  the series every day is rendered without a panic.
\<close>

theorem empty_optional_omitted:
  assumes "length (MaxTemps h) \<le> length (World h)"
    and "\<not> showSunrise \<or> Sunrise h = [] \<or> length (MaxTemps h) \<le> length (Sunrise h)"
    and "\<not> showSunset \<or> Sunset h = [] \<or> length (MaxTemps h) \<le> length (Sunset h)"
    and "\<not> showPrecip \<or> Precip h = [] \<or> length (MaxTemps h) \<le> length (Precip h)"
    and "\<not> showUV \<or> UVIndex h = [] \<or> length (MaxTemps h) \<le> length (UVIndex h)"
  shows "snd (render L P h fah showPrecip showUV showSunrise showSunset) = None
     \<and> length (fst (render L P h fah showPrecip showUV showSunrise showSunset)) =
         length (MaxTemps h)
     \<and> (Sunrise h = [] \<longrightarrow>
          render L P h fah showPrecip showUV showSunrise showSunset =
          render L P h fah showPrecip showUV False showSunset)
     \<and> (Sunset h = [] \<longrightarrow>
          render L P h fah showPrecip showUV showSunrise showSunset =
          render L P h fah showPrecip showUV showSunrise False)
     \<and> (Precip h = [] \<longrightarrow>
          render L P h fah showPrecip showUV showSunrise showSunset =
          render L P h fah False showUV showSunrise showSunset)
     \<and> (UVIndex h = [] \<longrightarrow>
          render L P h fah showPrecip showUV showSunrise showSunset =
          render L P h fah showPrecip False showSunrise showSunset)"
proof -
  have ok: "snd (render L P h fah showPrecip showUV showSunrise showSunset) = None
     \<and> length (fst (render L P h fah showPrecip showUV showSunrise showSunset)) =
         length (MaxTemps h)"
    using assms by (rule render_no_panic)
  have r: "Sunrise h = [] \<longrightarrow>
          render L P h fah showPrecip showUV showSunrise showSunset =
          render L P h fah showPrecip showUV False showSunset"
    by (auto intro: render_flags_cong)
  have s: "Sunset h = [] \<longrightarrow>
          render L P h fah showPrecip showUV showSunrise showSunset =
          render L P h fah showPrecip showUV showSunrise False"
    by (auto intro: render_flags_cong)
  have p: "Precip h = [] \<longrightarrow>
          render L P h fah showPrecip showUV showSunrise showSunset =
          render L P h fah False showUV showSunrise showSunset"
    by (auto intro: render_flags_cong)
  have u: "UVIndex h = [] \<longrightarrow>
          render L P h fah showPrecip showUV showSunrise showSunset =
          render L P h fah showPrecip False showSunrise showSunset"
    by (auto intro: render_flags_cong)
  from ok r s p u show ?thesis by blast
qed

lemma render_rain_week:
  "render plain_lib amd64 rain_week False True True True True =
     ([''*     10 '' @ deg @ ''C | 2024-05-01 | Precip: 0 mm'',
       ''**    15 '' @ deg @ ''C | 2024-05-02 | Precip: 3 mm'',
       ''***** 20 '' @ deg @ ''C | 2024-05-03 | Precip: 1 mm''], None)"
  by (simp add: rain_week_def days3_def plain_lib_def sample_lib_def render_eval)
     (simp add: eval_nat_numeral)

theorem empty_optional_omitted_witness:
  "length (MaxTemps rain_week) \<le> length (World rain_week)
   \<and> Sunrise rain_week = [] \<and> Sunset rain_week = [] \<and> UVIndex rain_week = []
   \<and> length (MaxTemps rain_week) \<le> length (Precip rain_week)
   \<and> render plain_lib amd64 rain_week False True True True True =
       ([''*     10 '' @ deg @ ''C | 2024-05-01 | Precip: 0 mm'',
         ''**    15 '' @ deg @ ''C | 2024-05-02 | Precip: 3 mm'',
         ''***** 20 '' @ deg @ ''C | 2024-05-03 | Precip: 1 mm''], None)
   \<and> render plain_lib amd64 rain_week False True True True True =
       render plain_lib amd64 rain_week False True True False True
   \<and> render plain_lib amd64 rain_week False True True True True =
       render plain_lib amd64 rain_week False True True True False
   \<and> render plain_lib amd64 rain_week False True True True True =
       render plain_lib amd64 rain_week False True False True True"
proof -
  have a: "length (MaxTemps rain_week) \<le> length (World rain_week)"
    and b: "Sunrise rain_week = []"
    and c: "Sunset rain_week = []"
    and d: "length (MaxTemps rain_week) \<le> length (Precip rain_week)"
    and e: "UVIndex rain_week = []"
    by (simp_all add: rain_week_def sample_history_def days3_def)
  note t = empty_optional_omitted [where h = rain_week and L = plain_lib and P = amd64
      and fah = False and showPrecip = True and showUV = True and showSunrise = True
      and showSunset = True]
  have "Sunrise rain_week = [] \<longrightarrow>
          render plain_lib amd64 rain_week False True True True True =
          render plain_lib amd64 rain_week False True True False True"
    and "Sunset rain_week = [] \<longrightarrow>
          render plain_lib amd64 rain_week False True True True True =
          render plain_lib amd64 rain_week False True True True False"
    and "UVIndex rain_week = [] \<longrightarrow>
          render plain_lib amd64 rain_week False True True True True =
          render plain_lib amd64 rain_week False True False True True"
    using t a b c d e by blast+
  then show ?thesis using a b c d e render_rain_week by simp
qed

text \<open>
  Claim C5. An enabled optional array that is not empty but shorter than the
  temperature array passes the guard \<open>len(...) > 0\<close> and is read out of
  range at the first day it does not cover: with two days and a sunrise array
  of one entry the first line is printed and the read of \<open>Sunrise[1]\<close>
  panics, where the claim has the second day rendered without its sunrise
  segment, as it is when the field is switched off.
\<close>

theorem short_optional_array_panics:
  "render plain_lib amd64 short_sunrise False False False True False =
     ([''*     10 '' @ deg @ ''C | 2024-05-01 | Sunrise: 06:30''],
      Some (IndexOutOfRange 1 1))
   \<and> render plain_lib amd64 short_sunrise False False False False False =
     ([''*     10 '' @ deg @ ''C | 2024-05-01'',
       ''***** 20 '' @ deg @ ''C | 2024-05-02''], None)"
  by (simp add: short_sunrise_def plain_lib_def sample_lib_def render_eval)
     (simp add: eval_nat_numeral)

subsection \<open>The flat week\<close>

lemma scan_constant:
  assumes "\<And>t. t \<in> set ts \<Longrightarrow> (if fah then (t * 9 / 5) + 32 else t) = c"
    and "(mn = 0 \<and> mx = 0) \<or> (mn = c \<and> mx = max 0 c)"
  shows "scan fah ts (mn, mx) = (if ts = [] then (mn, mx) else (c, max 0 c))"
  using assms
proof (induction ts arbitrary: mn mx)
  case Nil
  then show ?case by simp
next
  case (Cons t ts)
  have t: "(if fah then (t * 9 / 5) + 32 else t) = c"
    using Cons.prems(1) [of t] by simp
  have step: "scan fah (t # ts) (mn, mx) = scan fah ts (c, max 0 c)"
    using t Cons.prems(2) by (auto simp: Let_def max_def)
  have "scan fah ts (c, max 0 c) = (if ts = [] then (c, max 0 c) else (c, max 0 c))"
    using Cons.prems(1) by (intro Cons.IH) auto
  with step show ?case by simp
qed

lemma day_stars_at_minimum:
  assumes "nan_int P \<le> 0"
  shows "day_stars P c c mx = 1"
proof (cases "mx - c = 0")
  case True
  then show ?thesis using assms by (simp add: day_stars_def fdiv_def)
next
  case False
  then show ?thesis by (simp add: day_stars_def fdiv_def trunc_def)
qed

lemma createPattern_1: "createPattern 1 b = ([], ''*    '')"
  by (simp add: createPattern_def) (simp add: eval_nat_numeral)

text \<open>
  Claim C1, as it holds of the code. For a series whose maximum temperature is
  the same on every day the division by the zero range does not stop the
  program, and every line shows one filled mark (not five): the numerator is
  zero, so the quotient is NaN or zero, and the floor \<open>stars <= 0\<close> applies
  on every platform whose conversion of NaN to \<open>int\<close> is not positive (amd64,
  arm64). With arrays that cover the series the run prints one line per day.
\<close>

theorem flat_week_floor:
  assumes const: "\<forall>t\<in>set (MaxTemps h). t = c"
    and nan: "nan_int P \<le> 0"
    and r: "render L P h fah showPrecip showUV showSunrise showSunset = (lines, pn)"
  shows "(\<forall>i<length lines. take 5 (lines ! i) = ''*    '')
     \<and> (length (MaxTemps h) \<le> length (World h)
        \<and> (\<not> showSunrise \<or> Sunrise h = [] \<or> length (MaxTemps h) \<le> length (Sunrise h))
        \<and> (\<not> showSunset \<or> Sunset h = [] \<or> length (MaxTemps h) \<le> length (Sunset h))
        \<and> (\<not> showPrecip \<or> Precip h = [] \<or> length (MaxTemps h) \<le> length (Precip h))
        \<and> (\<not> showUV \<or> UVIndex h = [] \<or> length (MaxTemps h) \<le> length (UVIndex h))
        \<longrightarrow> pn = None \<and> length lines = length (MaxTemps h))"
proof -
  have first: "take 5 (lines ! i) = ''*    ''" if i: "i < length lines" for i
  proof -
    let ?c = "day_temp fah c"
    let ?mn = "fst (scan fah (MaxTemps h) (0, 0))" and ?mx = "snd (scan fah (MaxTemps h) (0, 0))"
    from render_line [OF r i] obtain s where
      i1: "i < length (MaxTemps h)" and
      l: "lines ! i = base_line P fah
            (snd (createPattern (day_stars P (day_temp fah (MaxTemps h ! i)) ?mn ?mx) True))
            (day_temp fah (MaxTemps h ! i)) (World h ! i) @ s"
      by blast
    from i1 const have ti: "MaxTemps h ! i = c" by simp
    from i1 have ne: "MaxTemps h \<noteq> []" by auto
    have "scan fah (MaxTemps h) (0, 0) = (?c, max 0 ?c)"
      using scan_constant [of "MaxTemps h" fah ?c 0 0] const ne by (simp add: day_temp_def)
    then have "day_stars P (day_temp fah (MaxTemps h ! i)) ?mn ?mx = 1"
      using ti day_stars_at_minimum [OF nan] by simp
    with l have "lines ! i = base_line P fah ''*    '' ?c (World h ! i) @ s"
      using ti by (simp add: createPattern_1)
    moreover have "length ''*    '' = 5" by simp
    ultimately show "take 5 (lines ! i) = ''*    ''"
      by (simp only: take_5_base_line)
  qed
  have second: "pn = None \<and> length lines = length (MaxTemps h)"
    if a: "length (MaxTemps h) \<le> length (World h)
        \<and> (\<not> showSunrise \<or> Sunrise h = [] \<or> length (MaxTemps h) \<le> length (Sunrise h))
        \<and> (\<not> showSunset \<or> Sunset h = [] \<or> length (MaxTemps h) \<le> length (Sunset h))
        \<and> (\<not> showPrecip \<or> Precip h = [] \<or> length (MaxTemps h) \<le> length (Precip h))
        \<and> (\<not> showUV \<or> UVIndex h = [] \<or> length (MaxTemps h) \<le> length (UVIndex h))"
  proof -
    have "snd (render L P h fah showPrecip showUV showSunrise showSunset) = None \<and>
          length (fst (render L P h fah showPrecip showUV showSunrise showSunset)) =
            length (MaxTemps h)"
      using a by (intro render_no_panic) simp_all
    with r show ?thesis by simp
  qed
  from first second show ?thesis by blast
qed

lemma render_flat_week:
  "render plain_lib amd64 flat_week False False False False False =
     ([''*     10 '' @ deg @ ''C | 2024-05-01'',
       ''*     10 '' @ deg @ ''C | 2024-05-02'',
       ''*     10 '' @ deg @ ''C | 2024-05-03''], None)"
  by (simp add: flat_week_def days3_def amd64_def render_eval)
     (simp add: eval_nat_numeral)

lemma render_frost_week:
  "render plain_lib amd64 frost_week False False False False False =
     ([''*     -5 '' @ deg @ ''C | 2024-05-01'',
       ''*     -5 '' @ deg @ ''C | 2024-05-02'',
       ''*     -5 '' @ deg @ ''C | 2024-05-03''], None)"
  by (simp add: frost_week_def days3_def amd64_def render_eval)
     (simp add: eval_nat_numeral)

theorem flat_week_floor_witness:
  "nan_int arm64 \<le> 0
   \<and> take 5 (fst (render plain_lib arm64 flat_week True False False False False) ! 0) = ''*    ''
   \<and> take 5 (fst (render plain_lib arm64 flat_week True False False False False) ! 2) = ''*    ''
   \<and> snd (render plain_lib arm64 flat_week True False False False False) = None
   \<and> length (fst (render plain_lib arm64 flat_week True False False False False)) = 3"
proof -
  obtain lines pn where
    r: "render plain_lib arm64 flat_week True False False False False = (lines, pn)"
    by (cases "render plain_lib arm64 flat_week True False False False False")
  have c: "\<forall>t\<in>set (MaxTemps flat_week). t = 10"
    and w: "length (MaxTemps flat_week) \<le> length (World flat_week)"
    and n: "length (MaxTemps flat_week) = 3"
    by (simp_all add: flat_week_def sample_history_def days3_def)
  have nan: "nan_int arm64 \<le> 0" by (simp add: arm64_def)
  from flat_week_floor [OF c nan r] w n
  have "pn = None" "length lines = 3" "\<forall>i<length lines. take 5 (lines ! i) = ''*    ''"
    by simp_all
  then show ?thesis using r nan by simp
qed

text \<open>
  The claim as stated fails: a week of 10 degrees (minimum equal to maximum) and
  a week of -5 degrees (maximum left at its initial zero) both render with one
  filled mark per day.
\<close>

theorem flat_week_not_five:
  "scan False (MaxTemps flat_week) (0, 0) = (10, 10)
   \<and> map (take 5) (fst (render plain_lib amd64 flat_week False False False False False)) =
       [''*    '', ''*    '', ''*    '']
   \<and> scan False (MaxTemps frost_week) (0, 0) = (- 5, 0)
   \<and> map (take 5) (fst (render plain_lib amd64 frost_week False False False False False)) =
       [''*    '', ''*    '', ''*    '']
   \<and> ''*    '' \<noteq> ''*****''"
  by (simp add: render_flat_week render_frost_week)
     (simp add: flat_week_def frost_week_def sample_history_def)

subsection \<open>Decoding\<close>

text \<open>
  \<open>processJsonData\<close> is \<open>render\<close> on the decoded payload; a payload that does
  not decode prints one error line.
\<close>

lemma processJsonData_decoded:
  "unmarshal_forecast L jsonData = Inr resp \<Longrightarrow>
   processJsonData L P jsonData fah showPrecip showUV showSunrise showSunset =
     render L P (History resp) fah showPrecip showUV showSunrise showSunset"
  by (simp add: processJsonData_def)

lemma processJsonData_undecoded:
  "unmarshal_forecast L jsonData = Inl err \<Longrightarrow>
   processJsonData L P jsonData fah showPrecip showUV showSunrise showSunset =
     ([''Error: '' @ err], None)"
  by (simp add: processJsonData_def)

subsection \<open>Display unit\<close>




text \<open>
  Claim C4. With \<open>-f\<close> the request asks the provider for Fahrenheit values
  (\<open>temperature_unit=fahrenheit\<close>) and the renderer converts the values of the
  payload once more: a payload of 68 and 50, the provider's answer for days of
  20 and 10 degrees Celsius, is shown as 154 and 122 degrees Fahrenheit.
\<close>

theorem fahrenheit_requested_and_converted:
  "formatExtraForecastParams only_fahr =
     ''&daily=temperature_2m_max,temperature_2m_min&temperature_unit=fahrenheit''
   \<and> render L P warm_days True False False False False =
       ([''***** 154 '' @ deg @ ''F | 2024-05-01'',
         ''*     122 '' @ deg @ ''F | 2024-05-02''], None)"
  by (simp add: formatExtraForecastParams_def only_fahr_def warm_days_def render_eval)
     (simp add: eval_nat_numeral)

subsection \<open>Minimum and maximum\<close>

lemma Min_insert_min:
  "finite S \<Longrightarrow> Min (insert (min c mn) S) = Min (insert (mn::real) (insert c S))"
  by (cases "S = {}") (simp_all add: min.commute min.left_commute)

lemma Max_insert_max:
  "finite S \<Longrightarrow> Max (insert (max c mx) S) = Max (insert (mx::real) (insert c S))"
  by (cases "S = {}") (simp_all add: max.commute max.left_commute)

lemma scan_positive_step:
  assumes "\<And>t. t \<in> set ts \<Longrightarrow> 0 < day_temp fah t" and "0 < mn" and "0 < mx"
  shows "scan fah ts (mn, mx) =
           (Min (insert mn (day_temp fah ` set ts)), Max (insert mx (day_temp fah ` set ts)))"
  using assms
proof (induction ts arbitrary: mn mx)
  case Nil
  then show ?case by simp
next
  case (Cons t ts)
  let ?c = "day_temp fah t"
  let ?S = "day_temp fah ` set ts"
  have c: "0 < ?c" using Cons.prems(1) by simp
  have step: "scan fah (t # ts) (mn, mx) = scan fah ts (min ?c mn, max ?c mx)"
    using Cons.prems(2) by (simp add: day_temp_def Let_def min_def max_def)
  have "scan fah ts (min ?c mn, max ?c mx) =
          (Min (insert (min ?c mn) ?S), Max (insert (max ?c mx) ?S))"
    using Cons.prems c by (intro Cons.IH) auto
  then show ?case
    using step by (simp add: Min_insert_min Max_insert_max)
qed

text \<open>On a series of positive display values the scan is right.\<close>

lemma scan_positive:
  assumes "ts \<noteq> []" and "\<And>t. t \<in> set ts \<Longrightarrow> 0 < day_temp fah t"
  shows "scan fah ts (0, 0) = (Min (day_temp fah ` set ts), Max (day_temp fah ` set ts))"
proof (cases ts)
  case Nil
  with assms(1) show ?thesis by simp
next
  case (Cons t rest)
  let ?c = "day_temp fah t"
  have c: "0 < ?c" using assms(2) Cons by simp
  have "scan fah ts (0, 0) = scan fah rest (?c, ?c)"
    using c Cons by (simp add: day_temp_def Let_def)
  also have "\<dots> = (Min (insert ?c (day_temp fah ` set rest)),
                    Max (insert ?c (day_temp fah ` set rest)))"
    using assms(2) Cons c by (intro scan_positive_step) auto
  finally show ?thesis using Cons by simp
qed

text \<open>
  Claim C3. The scan starts from \<open>minTemp = maxTemp = 0\<close>. A series of negative
  values leaves \<open>maxTemp\<close> at zero, and a zero value makes the next value the
  minimum: the results are not the minimum and maximum of the series.
\<close>

theorem scan_misses_negative_and_zero:
  "scan False [- 5, - 3] (0, 0) = (- 5, 0)
   \<and> Max (set [- 5, - 3 :: real]) = - 3
   \<and> scan False [0, 10] (0, 0) = (10, 10)
   \<and> Min (set [0, 10 :: real]) = 0
   \<and> scan True [- 40, - 30] (0, 0) = (- 40, 0)
   \<and> Max (set [- 40 * 9 / 5 + 32, - 30 * 9 / 5 + 32 :: real]) = - 22"
  by simp

subsection \<open>Location lookup\<close>

lemma match_loop_first:
  "\<forall>r\<in>set pre. Country_res r \<noteq> Country city \<Longrightarrow> Country_res c = Country city \<Longrightarrow>
   match_loop (pre @ c # post) city = Some (Latitude c, Longitude c)"
  by (induction pre) auto

lemma match_loop_none:
  "\<forall>r\<in>set rs. Country_res r \<noteq> Country city \<Longrightarrow> match_loop rs city = None"
  by (induction rs) auto

text \<open>
  Claim C6. When the request and the decoding succeed, the coordinates returned
  are those of the first candidate, in the order of the response, whose country
  is equal to the requested country as a string, whatever follows it.
\<close>

theorem first_exact_match_wins:
  assumes "http_get L (geocoding_url L city) = Inr response"
    and "read_all L response = Inr responseData"
    and "unmarshal_geo L responseData = Inr geocodingResponse"
    and "GeoCodingResults geocodingResponse = pre @ c # post"
    and "\<forall>r\<in>set pre. Country_res r \<noteq> Country city"
    and "Country_res c = Country city"
  shows "FindCityLocation L city = Returned (Latitude c, Longitude c, None)"
  using assms match_loop_first [of pre city c post]
  by (simp add: FindCityLocation_def)

theorem first_exact_match_wins_witness:
  "paris_candidates =
     [paris_candidates ! 0] @ paris_candidates ! 1 # [paris_candidates ! 2]
   \<and> Country_res (paris_candidates ! 0) = ''United States''
   \<and> Country_res (paris_candidates ! 1) = Country paris_france
   \<and> Country_res (paris_candidates ! 2) = Country paris_france
   \<and> FindCityLocation geo_lib paris_france = Returned (''48.85341'', ''2.3488'', None)"
proof -
  let ?L = geo_lib and ?u = "geocoding_url geo_lib paris_france"
  have a: "http_get ?L ?u = Inr ?u"
    and b: "read_all ?L ?u = Inr ?u"
    and c: "unmarshal_geo ?L ?u = Inr \<lparr>GeoCodingResults = paris_candidates\<rparr>"
    by (simp_all add: geo_lib_def sample_lib_def)
  have d: "GeoCodingResults \<lparr>GeoCodingResults = paris_candidates\<rparr> =
             [paris_candidates ! 0] @ paris_candidates ! 1 # [paris_candidates ! 2]"
    by (simp add: paris_candidates_def)
  have e: "\<forall>r\<in>set [paris_candidates ! 0]. Country_res r \<noteq> Country paris_france"
    by (simp add: paris_candidates_def paris_france_def)
  have f: "Country_res (paris_candidates ! 1) = Country paris_france"
    and g: "Country_res (paris_candidates ! 2) = Country paris_france"
    and h: "Country_res (paris_candidates ! 0) = ''United States''"
    and i: "Latitude (paris_candidates ! 1) = ''48.85341''"
    and j: "Longitude (paris_candidates ! 1) = ''2.3488''"
    by (simp_all add: paris_candidates_def paris_france_def)
  from first_exact_match_wins [OF a b c d e f]
  show ?thesis using d f g h i j by simp
qed

text \<open>
  Claim C7, as it holds of the code. When no candidate has the requested
  country, the call returns an error and empty coordinates; the message starts
  with a capital letter: \<open>Could not find a proper location match for\<close>, then
  the city, \<open>of country\<close> and the country.
\<close>

theorem no_match_error_message:
  assumes "http_get L (geocoding_url L city) = Inr response"
    and "read_all L response = Inr responseData"
    and "unmarshal_geo L responseData = Inr geocodingResponse"
    and "\<forall>r\<in>set (GeoCodingResults geocodingResponse). Country_res r \<noteq> Country city"
  shows "FindCityLocation L city =
           Returned ([], [],
             Some (''Could not find a proper location match for '' @ Name city
                   @ '' of country '' @ Country city))"
  using assms match_loop_none [of "GeoCodingResults geocodingResponse" city]
  by (simp add: FindCityLocation_def no_match_error_def)

theorem no_match_error_message_witness:
  "Country_res (paris_candidates ! 0) \<noteq> Country paris_lowercase
   \<and> Country_res (paris_candidates ! 1) \<noteq> Country paris_lowercase
   \<and> Country_res (paris_candidates ! 2) \<noteq> Country paris_lowercase
   \<and> length paris_candidates = 3
   \<and> FindCityLocation geo_lib paris_lowercase =
       Returned ([], [], Some ''Could not find a proper location match for Paris of country france'')"
proof -
  let ?L = geo_lib and ?u = "geocoding_url geo_lib paris_lowercase"
  have a: "http_get ?L ?u = Inr ?u"
    and b: "read_all ?L ?u = Inr ?u"
    and c: "unmarshal_geo ?L ?u = Inr \<lparr>GeoCodingResults = paris_candidates\<rparr>"
    by (simp_all add: geo_lib_def sample_lib_def)
  have d: "\<forall>r\<in>set (GeoCodingResults \<lparr>GeoCodingResults = paris_candidates\<rparr>).
             Country_res r \<noteq> Country paris_lowercase"
    by (simp add: paris_candidates_def paris_lowercase_def)
  have e: "Country_res (paris_candidates ! 0) \<noteq> Country paris_lowercase"
    "Country_res (paris_candidates ! 1) \<noteq> Country paris_lowercase"
    "Country_res (paris_candidates ! 2) \<noteq> Country paris_lowercase"
    "length paris_candidates = 3"
    by (simp_all add: paris_candidates_def paris_lowercase_def)
  from no_match_error_message [OF a b c d]
  show ?thesis using e by (simp add: paris_lowercase_def)
qed

text \<open>
  The message of the claim, which starts with a lower-case letter, is not the
  message returned.
\<close>

theorem no_match_message_is_capitalised:
  "FindCityLocation (sample_lib [] week_10_15_20) paris_france =
     Returned ([], [], Some ''Could not find a proper location match for Paris of country France'')
   \<and> ''Could not find a proper location match for Paris of country France'' \<noteq>
      ''could not find a proper location match for Paris of country France''"
  by (simp add: FindCityLocation_def sample_lib_def paris_france_def no_match_error_def)

end
